theory Spec2Isabelle
  imports Complex_Main
begin

section \<open>The frame simulation of the lane-dodging game\<close>

text \<open>
  The game is one React component; its simulation is the functions \<open>startGame\<close>,
  \<open>gameOver\<close> and \<open>update\<close>. JavaScript numbers are modelled as real numbers (all
  comparisons and sums below are exact), the tick counters and the score as integers.
  Colours, sounds, the road animation and drawing have no effect on the simulation
  and are left out.
\<close>

subsection \<open>Constants\<close>

definition CANVAS_WIDTH :: real where "CANVAS_WIDTH = 400"
definition CANVAS_HEIGHT :: real where "CANVAS_HEIGHT = 600"
definition CAR_WIDTH :: real where "CAR_WIDTH = 40"
definition CAR_HEIGHT :: real where "CAR_HEIGHT = 70"
definition INITIAL_ENEMY_SPEED :: real where "INITIAL_ENEMY_SPEED = 7"
definition ENEMY_SPAWN_RATE :: real where "ENEMY_SPAWN_RATE = 1200"

subsection \<open>Entities and state\<close>

datatype PowerUpType = SHIELD | BOOST | MULTIPLIER | COIN
datatype ObstacleType = CAR | BARRIER | OIL | LASER | GRAVITY | PLATFORM | CHASER
datatype TireType = STANDARD | GRIP | DRIFT
datatype GameState = START | PLAYING | GAMEOVER | SETTINGS
datatype DifficultyLevel = EASY | NORMAL | HARD

text \<open>
  \<open>interface GameObject\<close>: the fields \<open>x\<close> and \<open>y\<close> are called \<open>posx\<close> and \<open>posy\<close>
  here; the \<open>type\<close> tag of an obstacle is \<open>etype\<close>, that of a collectible \<open>ptype\<close>,
  whose \<open>speed\<close> is \<open>pspeed\<close>. The optional fields of \<open>Enemy\<close> are options, \<open>None\<close>
  being \<open>undefined\<close>.
\<close>

record GameObject =
  posx :: real
  posy :: real
  width :: real
  height :: real

record PowerUp = GameObject +
  ptype :: PowerUpType
  pspeed :: real

record Enemy = GameObject +
  etype :: ObstacleType
  speed :: real
  vx :: "real option"
  direction :: "real option"
  timer :: "nat option"
  active :: "bool option"
  pull :: "real option"

text \<open>
  The React state of the component and the refs the simulation owns. The same record
  serves for the values a render has captured in the closure of \<open>update\<close>.
\<close>

record Game =
  gameState :: GameState
  score :: int
  highScore :: int
  difficulty :: real
  difficultyLevel :: DifficultyLevel
  tireType :: TireType
  activeShield :: int
  activeMultiplier :: int
  activeBoost :: int
  isSliding :: int
  coins :: int
  player :: GameObject
  enemies :: "Enemy list"
  powerUps :: "PowerUp list"
  lastSpawnTime :: real
  lastCoinRewardTime :: real

text \<open>
  What one call of \<open>update\<close> receives from outside: the frame time, whether the canvas
  has a 2d context, the two steer intents (\<open>moveLeft\<close>, \<open>moveRight\<close>), and the values
  that the successive calls of \<open>Math.random()\<close> return in this call, each in \<open>[0, 1)\<close>.
\<close>

record Env =
  time :: real
  hasCtx :: bool
  moveLeft :: bool
  moveRight :: bool
  rnd :: "nat \<Rightarrow> real"

definition initialPlayer :: GameObject where
  "initialPlayer =
     \<lparr>posx = CANVAS_WIDTH / 2 - CAR_WIDTH / 2, posy = CANVAS_HEIGHT - CAR_HEIGHT - 40,
      width = CAR_WIDTH, height = CAR_HEIGHT\<rparr>"

definition initialGame :: Game where
  "initialGame =
     \<lparr>gameState = START, score = 0, highScore = 0, difficulty = 1,
      difficultyLevel = NORMAL, tireType = STANDARD, activeShield = 0,
      activeMultiplier = 0, activeBoost = 0, isSliding = 0, coins = 0,
      player = initialPlayer, enemies = [], powerUps = [],
      lastSpawnTime = 0, lastCoinRewardTime = 0\<rparr>"

subsection \<open>Starting and ending a run\<close>

text \<open>
  \<open>startGame\<close> is a closure of a render too, and reads \<open>difficultyLevel\<close> from it:
  the start buttons call the one of the current render, but the key handler (Enter,
  r) is installed by an effect that depends on \<open>gameState\<close> only and calls the
  \<open>startGame\<close> of the render in which \<open>gameState\<close> last changed. So \<open>c\<close> is the
  render of the closure called, \<open>g\<close> the live state; \<open>now1\<close> and \<open>now2\<close> are the two
  readings of \<open>performance.now()\<close>.
\<close>

definition startGame :: "Game \<Rightarrow> real \<Rightarrow> real \<Rightarrow> Game \<Rightarrow> Game" where
  "startGame c now1 now2 g =
     g\<lparr>gameState := PLAYING,
       score := 0,
       difficulty := (if difficultyLevel c = EASY then 0.7
                      else if difficultyLevel c = HARD then 1.5 else 1),
       enemies := [],
       powerUps := [],
       activeShield := 0,
       activeMultiplier := 0,
       activeBoost := 0,
       isSliding := 0,
       player := (player g)\<lparr>posx := CANVAS_WIDTH / 2 - CAR_WIDTH / 2\<rparr>,
       lastSpawnTime := now1,
       lastCoinRewardTime := now2\<rparr>"

text \<open>
  \<open>gameOver\<close> compares the score and the high score of the render \<open>c\<close> it was created
  in, and writes to the live state \<open>g\<close>.
\<close>

definition gameOver :: "Game \<Rightarrow> Game \<Rightarrow> Game" where
  "gameOver c g =
     (let g1 = g\<lparr>gameState := GAMEOVER\<rparr>
      in if score c > highScore c then g1\<lparr>highScore := score c\<rparr> else g1)"

subsection \<open>The steps of \<open>update\<close>\<close>

text \<open>
  \<open>update\<close> is a closure created by a render of the component. Throughout, \<open>c\<close> is
  that render: a plain read of React state in \<open>update\<close> (\<open>difficulty\<close>, \<open>score\<close>, the
  four timers, \<open>tireType\<close>, \<open>difficultyLevel\<close>) is a read of \<open>c\<close>. The live state is
  \<open>g\<close>: the refs are read from it and assigned in it, and the setters act on it in
  program order, as React applies the queued updates: \<open>setX(v)\<close> is \<open>g\<lparr>X := v\<rparr>\<close>
  and \<open>setX(s => f(s))\<close> is \<open>g\<lparr>X := f (X g)\<rparr>\<close>.
\<close>

text \<open>Step 0, the survival coin reward.\<close>

definition survivalReward :: "real \<Rightarrow> Game \<Rightarrow> Game" where
  "survivalReward t g =
     (if t - lastCoinRewardTime g > 5000
      then g\<lparr>coins := coins g + 1, lastCoinRewardTime := t\<rparr>
      else g)"

text \<open>Step 1, moving the player; then the pull of the gravity zones.\<close>

definition movePlayer :: "Game \<Rightarrow> Env \<Rightarrow> GameObject \<Rightarrow> GameObject" where
  "movePlayer c env p =
     (let basePlayerSpeed = (if tireType c = GRIP then 9 else if tireType c = DRIFT then 11 else 7);
          currentSpeed = basePlayerSpeed * (if activeBoost c > 0 then 1.5 else 1)
      in if (moveLeft env \<or> moveRight env) \<and> isSliding c = 0 then
           (let p1 = (if moveLeft env then p\<lparr>posx := max 0 (posx p - currentSpeed)\<rparr> else p)
            in if moveRight env
               then p1\<lparr>posx := min (CANVAS_WIDTH - CAR_WIDTH) (posx p1 + currentSpeed)\<rparr>
               else p1)
         else if isSliding c > 0 then
           p\<lparr>posx := max 0 (min (CANVAS_WIDTH - CAR_WIDTH) (posx p + sin (time env / 100) * 3))\<rparr>
         else p)"

fun gravityPull :: "real \<Rightarrow> Enemy list \<Rightarrow> GameObject \<Rightarrow> GameObject" where
  "gravityPull t [] p = p"
| "gravityPull t (enemy # es) p =
     gravityPull t es
       (case pull enemy of
          Some pl \<Rightarrow>
            if etype enemy = GRAVITY
               \<and> posy p < posy enemy + height enemy \<and> posy p + height p > posy enemy
            then (let timeFactor = 0.8 + sin (t / 250) * 0.4
                  in p\<lparr>posx := max 0 (min (CANVAS_WIDTH - CAR_WIDTH) (posx p + pl * timeFactor))\<rparr>)
            else p
        | None \<Rightarrow> p)"

definition moveStep :: "Game \<Rightarrow> Env \<Rightarrow> Game \<Rightarrow> Game" where
  "moveStep c env g =
     g\<lparr>player := gravityPull (time env) (enemies g) (movePlayer c env (player g))\<rparr>"

text \<open>
  Step 2, spawning. \<open>pickX\<close> is the \<open>do \<dots> while\<close> loop that draws an x position at
  least \<open>CAR_WIDTH + 20\<close> away from the positions already used in this call, giving
  up after ten attempts; \<open>k\<close> counts the calls of \<open>Math.random()\<close> made so far.
\<close>

function pickX :: "(nat \<Rightarrow> real) \<Rightarrow> real list \<Rightarrow> nat \<Rightarrow> nat \<Rightarrow> real \<times> nat" where
  "pickX r spawnedX attempts k =
     (if list_ex (\<lambda>sx. \<bar>sx - r k * (CANVAS_WIDTH - CAR_WIDTH)\<bar> < CAR_WIDTH + 20) spawnedX
         \<and> attempts + 1 < 10
      then pickX r spawnedX (attempts + 1) (k + 1)
      else (r k * (CANVAS_WIDTH - CAR_WIDTH), k + 1))"
  by pat_completeness auto
termination
  by (relation "measure (\<lambda>(r, spawnedX, attempts, k). 10 - attempts)") auto

datatype Spawned = Collectible PowerUp | Obstacle Enemy

text \<open>
  The records that the branches of the spawn loop push, named after the comments of
  the source. \<open>d\<close> is the difficulty, \<open>x\<close> the position from \<open>pickX\<close>, and \<open>u\<close>, \<open>u1\<close>,
  \<open>u2\<close> are further values of \<open>Math.random()\<close>.
\<close>

definition coin :: "real \<Rightarrow> real \<Rightarrow> PowerUp" where
  "coin d x =
     \<lparr>posx = x + (CAR_WIDTH - 25) / 2, posy = - CAR_HEIGHT, width = 25, height = 25,
      ptype = COIN, pspeed = INITIAL_ENEMY_SPEED * d\<rparr>"

definition powerUp :: "real \<Rightarrow> real \<Rightarrow> PowerUpType \<Rightarrow> PowerUp" where
  "powerUp d x ty =
     \<lparr>posx = x, posy = - CAR_HEIGHT, width = 30, height = 30,
      ptype = ty, pspeed = INITIAL_ENEMY_SPEED * d\<rparr>"

definition movingBarrier :: "real \<Rightarrow> real \<Rightarrow> real \<Rightarrow> Enemy" where
  "movingBarrier d x u =
     \<lparr>posx = x, posy = - CAR_HEIGHT, width = CAR_WIDTH * 1.5, height = 30,
      etype = BARRIER, speed = INITIAL_ENEMY_SPEED * d * 0.8,
      vx = Some (2 * d), direction = Some (if u > 0.5 then 1 else - 1),
      timer = None, active = None, pull = None\<rparr>"

definition oilSlick :: "real \<Rightarrow> real \<Rightarrow> Enemy" where
  "oilSlick d x =
     \<lparr>posx = max 10 (min (CANVAS_WIDTH - 110) x), posy = - CAR_HEIGHT,
      width = 100, height = 50,
      etype = OIL, speed = INITIAL_ENEMY_SPEED * d,
      vx = None, direction = None, timer = None, active = None, pull = None\<rparr>"

definition laserGrid :: "real \<Rightarrow> Enemy" where
  "laserGrid d =
     \<lparr>posx = 0, posy = - CAR_HEIGHT, width = CANVAS_WIDTH, height = 10,
      etype = LASER, speed = INITIAL_ENEMY_SPEED * d * 0.7,
      vx = None, direction = None, timer = Some 0, active = Some False, pull = None\<rparr>"

definition gravityZone :: "real \<Rightarrow> real \<Rightarrow> real \<Rightarrow> Enemy" where
  "gravityZone d u1 u2 =
     (let pullDir = (if u1 > 0.5 then 1 else - 1);
          pullStrength = (3 + u2 * 3) * d
      in \<lparr>posx = 0, posy = - CAR_HEIGHT, width = CANVAS_WIDTH, height = 150,
          etype = GRAVITY, speed = INITIAL_ENEMY_SPEED * d * 0.6,
          vx = None, direction = None, timer = None, active = None,
          pull = Some (pullDir * pullStrength)\<rparr>)"

definition holographicPlatform :: "real \<Rightarrow> real \<Rightarrow> Enemy" where
  "holographicPlatform d x =
     \<lparr>posx = x, posy = - CAR_HEIGHT, width = CAR_WIDTH * 1.5, height = 20,
      etype = PLATFORM, speed = INITIAL_ENEMY_SPEED * d,
      vx = None, direction = None, timer = Some 0, active = Some True, pull = None\<rparr>"

definition chaserCar :: "real \<Rightarrow> real \<Rightarrow> Enemy" where
  "chaserCar d x =
     \<lparr>posx = x, posy = - CAR_HEIGHT, width = CAR_WIDTH, height = CAR_HEIGHT,
      etype = CHASER, speed = INITIAL_ENEMY_SPEED * d * 1.1,
      vx = Some 0, direction = None, timer = None, active = None, pull = None\<rparr>"

definition standardCar :: "real \<Rightarrow> real \<Rightarrow> Enemy" where
  "standardCar d x =
     \<lparr>posx = x, posy = - CAR_HEIGHT, width = CAR_WIDTH, height = CAR_HEIGHT,
      etype = CAR, speed = INITIAL_ENEMY_SPEED * d,
      vx = None, direction = None, timer = None, active = None, pull = None\<rparr>"

text \<open>
  The body of the spawn loop after the position is chosen: the draw \<open>rand\<close> and the
  chain of branches on it, in the order of the source. \<open>i\<close> is the index of the slot.
  The result is the entity pushed and the number of random values used. (The
  standard car draws one more value, for its colour.)
\<close>

definition spawnOne :: "real \<Rightarrow> nat \<Rightarrow> real \<Rightarrow> (nat \<Rightarrow> real) \<Rightarrow> nat \<Rightarrow> Spawned \<times> nat" where
  "spawnOne d i x r k =
     (let rand = r k in
      if rand < 0.4 then (Collectible (coin d x), k + 1)
      else if i = 0 \<and> rand < 0.25 then
        (let n = \<lfloor>r (k + 1) * 3\<rfloor>;
             ty = (if n = 0 then SHIELD else if n = 1 then BOOST else MULTIPLIER)
         in (Collectible (powerUp d x ty), k + 2))
      else if rand < 0.35 \<and> d > 1.2 then (Obstacle (movingBarrier d x (r (k + 1))), k + 2)
      else if rand < 0.3 \<and> d > 1.1 then (Obstacle (oilSlick d x), k + 1)
      else if rand < 0.4 \<and> d > 1.3 then (Obstacle (laserGrid d), k + 1)
      else if rand < 0.5 \<and> d > 1.4 then
        (Obstacle (gravityZone d (r (k + 1)) (r (k + 2))), k + 3)
      else if rand < 0.6 \<and> d > 1.5 then (Obstacle (holographicPlatform d x), k + 1)
      else if rand < 0.7 \<and> d > 1.6 then (Obstacle (chaserCar d x), k + 1)
      else (Obstacle (standardCar d x), k + 2))"

text \<open>\<open>powerUpsRef.current.push\<close> and \<open>enemiesRef.current.push\<close>.\<close>

fun push :: "Spawned \<Rightarrow> Game \<Rightarrow> Game" where
  "push (Collectible p) g = g\<lparr>powerUps := powerUps g @ [p]\<rparr>"
| "push (Obstacle e) g = g\<lparr>enemies := enemies g @ [e]\<rparr>"

function spawnLoop ::
  "real \<Rightarrow> (nat \<Rightarrow> real) \<Rightarrow> nat \<Rightarrow> nat \<Rightarrow> real list \<Rightarrow> nat \<Rightarrow> Game \<Rightarrow> Game" where
  "spawnLoop d r spawnCount i spawnedX k g =
     (if i < spawnCount then
        (let xk = pickX r spawnedX 0 k;
             ek = spawnOne d i (fst xk) r (snd xk)
         in spawnLoop d r spawnCount (i + 1) (spawnedX @ [fst xk]) (snd ek) (push (fst ek) g))
      else g)"
  by pat_completeness auto
termination
  by (relation "measure (\<lambda>(d, r, spawnCount, i, spawnedX, k, g). spawnCount - i)") auto

text \<open>
  \<open>ENEMY_SPAWN_RATE / difficulty\<close> is \<open>Infinity\<close> in JavaScript when the difficulty is
  0, so that nothing spawns; division by 0 is 0 in HOL, hence the explicit test. The
  draw for \<open>spawnCount\<close> is made only when the difficulty exceeds 1.5.
\<close>

definition spawnInterval :: "Game \<Rightarrow> real" where
  "spawnInterval c = (ENEMY_SPAWN_RATE / difficulty c) * (if activeBoost c > 0 then 0.5 else 1)"

definition spawnCount :: "Game \<Rightarrow> Env \<Rightarrow> nat" where
  "spawnCount c env = (if difficulty c > 1.5 \<and> rnd env 0 > 0.5 then 2 else 1)"

definition spawnStep :: "Game \<Rightarrow> Env \<Rightarrow> Game \<Rightarrow> Game" where
  "spawnStep c env g =
     (if difficulty c \<noteq> 0 \<and> time env - lastSpawnTime g > spawnInterval c then
        (spawnLoop (difficulty c) (rnd env) (spawnCount c env) 0 []
           (if difficulty c > 1.5 then 1 else 0) g)
        \<lparr>lastSpawnTime := time env\<rparr>
      else g)"

text \<open>The rectangle test that both filters apply to the player and an entity.\<close>

definition overlaps :: "GameObject \<Rightarrow> 'a GameObject_scheme \<Rightarrow> bool" where
  "overlaps p e \<longleftrightarrow>
     posx p < posx e + width e \<and> posx p + width p > posx e \<and>
     posy p < posy e + height e \<and> posy p + height p > posy e"

text \<open>
  Step 3, the filter over the collectibles: each one moves down, is picked up when it
  overlaps the player, and is dropped when it has left the canvas.
\<close>

definition collect :: "PowerUp \<Rightarrow> Game \<Rightarrow> Game" where
  "collect p g =
     (let g1 = (if ptype p = SHIELD then g\<lparr>activeShield := 300\<rparr> else g);
          g2 = (if ptype p = BOOST then g1\<lparr>activeBoost := 200\<rparr> else g1);
          g3 = (if ptype p = MULTIPLIER then g2\<lparr>activeMultiplier := 400\<rparr> else g2)
      in if ptype p = COIN then g3\<lparr>coins := coins g3 + 1\<rparr> else g3)"

fun updatePowerUps :: "GameObject \<Rightarrow> PowerUp list \<Rightarrow> Game \<Rightarrow> PowerUp list \<times> Game" where
  "updatePowerUps pl [] g = ([], g)"
| "updatePowerUps pl (p # ps) g =
     (let p' = p\<lparr>posy := posy p + pspeed p\<rparr>
      in if overlaps pl p' then updatePowerUps pl ps (collect p' g)
         else (let rest = updatePowerUps pl ps g
               in (if posy p' \<le> CANVAS_HEIGHT then p' # fst rest else fst rest, snd rest)))"

definition powerUpStep :: "Game \<Rightarrow> Game" where
  "powerUpStep g =
     (let res = updatePowerUps (player g) (powerUps g) g in (snd res)\<lparr>powerUps := fst res\<rparr>)"

text \<open>
  Step 4, the filter over the obstacles. First the obstacle moves: down, and by the
  logic of its kind. \<open>!enemy.active\<close> is true for \<open>undefined\<close> and for \<open>false\<close>.
\<close>

definition barrierLogic :: "Enemy \<Rightarrow> Enemy" where
  "barrierLogic e =
     (case (vx e, direction e) of
        (Some v, Some dir) \<Rightarrow>
          if etype e = BARRIER then
            (let e1 = e\<lparr>posx := posx e + v * dir\<rparr>
             in if posx e1 \<le> 0 \<or> posx e1 + width e1 \<ge> CANVAS_WIDTH
                then e1\<lparr>direction := Some (dir * (- 1))\<rparr> else e1)
          else e
      | _ \<Rightarrow> e)"

definition laserLogic :: "Enemy \<Rightarrow> Enemy" where
  "laserLogic e =
     (case timer e of
        Some t \<Rightarrow>
          if etype e = LASER then
            (if t + 1 > 60 then e\<lparr>timer := Some 0, active := Some (active e \<noteq> Some True)\<rparr>
             else e\<lparr>timer := Some (t + 1)\<rparr>)
          else e
      | None \<Rightarrow> e)"

definition platformLogic :: "Enemy \<Rightarrow> Enemy" where
  "platformLogic e =
     (case timer e of
        Some t \<Rightarrow>
          if etype e = PLATFORM then
            (if t + 1 > 40 then e\<lparr>timer := Some 0, active := Some (active e \<noteq> Some True)\<rparr>
             else e\<lparr>timer := Some (t + 1)\<rparr>)
          else e
      | None \<Rightarrow> e)"

definition chaserLogic :: "Game \<Rightarrow> GameObject \<Rightarrow> Enemy \<Rightarrow> Enemy" where
  "chaserLogic c pl e =
     (if etype e = CHASER then
        (let dx = posx pl - posx e; chaseSpeed = 1.5 * difficulty c
         in e\<lparr>posx := posx e + sgn dx * min \<bar>dx\<bar> chaseSpeed\<rparr>)
      else e)"

definition moveEnemy :: "Game \<Rightarrow> GameObject \<Rightarrow> Enemy \<Rightarrow> Enemy" where
  "moveEnemy c pl e =
     chaserLogic c pl (platformLogic (laserLogic (barrierLogic
       (e\<lparr>posy := posy e + speed e * (if activeBoost c > 0 then 1.5 else 1)\<rparr>))))"

text \<open>
  Then the collision is resolved and the obstacle is scored when it has passed the
  bottom. The result is the value the filter callback returns (\<open>True\<close>: the obstacle
  stays) and the state.
\<close>

definition passCheck :: "Game \<Rightarrow> Enemy \<Rightarrow> Game \<Rightarrow> bool \<times> Game" where
  "passCheck c e g =
     (if posy e > CANVAS_HEIGHT then
        (False, if etype e \<noteq> OIL \<and> etype e \<noteq> GRAVITY
                then g\<lparr>score := score g + 10 * (if activeMultiplier c > 0 then 2 else 1)\<rparr>
                else g)
      else (True, g))"

definition collide :: "Game \<Rightarrow> GameObject \<Rightarrow> Enemy \<Rightarrow> Game \<Rightarrow> bool \<times> Game" where
  "collide c pl e g =
     (if overlaps pl e then
        if etype e = OIL then (True, g\<lparr>isSliding := 60\<rparr>)
        else if etype e = GRAVITY then (True, g)
        else if etype e = LASER \<and> active e \<noteq> Some True then (True, g)
        else if etype e = PLATFORM \<and> active e \<noteq> Some True then (True, g)
        else if activeShield c > 0 then (False, g\<lparr>activeShield := 0\<rparr>)
        else passCheck c e (gameOver c g)
      else passCheck c e g)"

fun updateEnemies :: "Game \<Rightarrow> GameObject \<Rightarrow> Enemy list \<Rightarrow> Game \<Rightarrow> Enemy list \<times> Game" where
  "updateEnemies c pl [] g = ([], g)"
| "updateEnemies c pl (e # es) g =
     (let e' = moveEnemy c pl e;
          res = collide c pl e' g;
          rest = updateEnemies c pl es (snd res)
      in (if fst res then e' # fst rest else fst rest, snd rest))"

definition enemyStep :: "Game \<Rightarrow> Game \<Rightarrow> Game" where
  "enemyStep c g =
     (let res = updateEnemies c (player g) (enemies g) g in (snd res)\<lparr>enemies := fst res\<rparr>)"

text \<open>Step 5, the decay of the timers, and step 6, the difficulty.\<close>

definition decayTimers :: "Game \<Rightarrow> Game \<Rightarrow> Game" where
  "decayTimers c g =
     (let g1 = (if activeShield c > 0 then g\<lparr>activeShield := activeShield g - 1\<rparr> else g);
          g2 = (if activeMultiplier c > 0 then g1\<lparr>activeMultiplier := activeMultiplier g1 - 1\<rparr> else g1);
          g3 = (if activeBoost c > 0 then g2\<lparr>activeBoost := activeBoost g2 - 1\<rparr> else g2)
      in if isSliding c > 0 then g3\<lparr>isSliding := isSliding g3 - 1\<rparr> else g3)"

definition baseDiff :: "DifficultyLevel \<Rightarrow> real" where
  "baseDiff l = (if l = EASY then 1.2 else if l = HARD then 3.5 else 2.5)"

definition updateDifficulty :: "Game \<Rightarrow> Game \<Rightarrow> Game" where
  "updateDifficulty c g =
     g\<lparr>difficulty := baseDiff (difficultyLevel c) + of_int \<lfloor>of_int (score c) / (100::real)\<rfloor> * 0.35\<rparr>"

subsection \<open>One frame\<close>

definition update :: "Game \<Rightarrow> Env \<Rightarrow> Game \<Rightarrow> Game" where
  "update c env g =
     (if gameState c \<noteq> PLAYING then g
      else if \<not> hasCtx env then g
      else updateDifficulty c (decayTimers c (enemyStep c (powerUpStep
             (spawnStep c env (moveStep c env (survivalReward (time env) g)))))))"

text \<open>A frame whose closure is up to date with the state it runs on.\<close>

definition tick :: "Env \<Rightarrow> Game \<Rightarrow> Game" where
  "tick env g = update g env g"

subsection \<open>Reachable states\<close>

text \<open>
  The states the component can be in: the initial state with the coins, the high
  score and the level read from storage; then any sequence of run starts, frames,
  and menu actions (which select the screen, the level and the tires, and spend
  coins). A start and a frame may run with any captured render \<open>c\<close>.
\<close>

inductive reachable :: "Game \<Rightarrow> bool" where
  initial: "reachable (initialGame\<lparr>coins := n, highScore := h, difficultyLevel := l\<rparr>)"
| start: "reachable g \<Longrightarrow> reachable (startGame c now1 now2 g)"
| frame: "reachable g \<Longrightarrow> reachable (update c env g)"
| menu: "reachable g \<Longrightarrow>
         reachable (g\<lparr>gameState := s, difficultyLevel := l, tireType := t, coins := n\<rparr>)"

definition onTrack :: "GameObject \<Rightarrow> bool" where
  "onTrack p \<longleftrightarrow> 0 \<le> posx p \<and> posx p \<le> CANVAS_WIDTH - CAR_WIDTH"

subsection \<open>Runs\<close>



text \<open>
  The states the program itself gets into: as \<open>reachable\<close>, but every captured render
  is the React state of such a state.
\<close>

inductive played :: "Game \<Rightarrow> bool" where
  loaded: "played (initialGame\<lparr>coins := n, highScore := h, difficultyLevel := l\<rparr>)"
| begun: "played g \<Longrightarrow> played c \<Longrightarrow> played (startGame c now1 now2 g)"
| shown: "played g \<Longrightarrow> played c \<Longrightarrow> played (update c env g)"
| chosen: "played g \<Longrightarrow>
           played (g\<lparr>gameState := s, difficultyLevel := l, tireType := t, coins := n\<rparr>)"

text \<open>
  A state in which no timer runs, every collectible is a coin, and every obstacle is
  a gravity zone, a platform, a chaser or a standard car.
\<close>

definition plain :: "Game \<Rightarrow> bool" where
  "plain g \<longleftrightarrow>
     activeShield g = 0 \<and> activeMultiplier g = 0 \<and> activeBoost g = 0 \<and> isSliding g = 0
     \<and> list_all (\<lambda>p. ptype p = COIN) (powerUps g)
     \<and> list_all (\<lambda>e. etype e = GRAVITY \<or> etype e = PLATFORM \<or> etype e = CHASER \<or> etype e = CAR)
          (enemies g)"

subsection \<open>Concrete inputs\<close>

text \<open>
  A random source that returns the listed values, then 0; a frame with a canvas and
  no steering; a run just started at time 0 on NORMAL; and the render of such a run
  once its first frame has set the difficulty to 2.5.
\<close>

definition draws :: "real list \<Rightarrow> nat \<Rightarrow> real" where
  "draws xs k = (if k < length xs then xs ! k else 0)"

definition frameAt :: "real \<Rightarrow> real list \<Rightarrow> Env" where
  "frameAt t xs = \<lparr>time = t, hasCtx = True, moveLeft = False, moveRight = False, rnd = draws xs\<rparr>"

definition newRun :: Game where
  "newRun = startGame initialGame 0 0 initialGame"

definition normalRun :: Game where
  "normalRun = newRun\<lparr>difficulty := 2.5\<rparr>"

text \<open>
  A platform and a standard car placed so that they overlap the player of a new run
  once they have moved down by their speed 7; a coin about to leave the canvas.
\<close>

definition platformAhead :: "bool \<Rightarrow> Enemy" where
  "platformAhead a =
     \<lparr>posx = 180, posy = 480, width = 60, height = 20, etype = PLATFORM, speed = 7,
      vx = None, direction = None, timer = Some 0, active = Some a, pull = None\<rparr>"




definition gravityAhead :: "real \<Rightarrow> Enemy" where
  "gravityAhead pl =
     \<lparr>posx = 0, posy = 400, width = 400, height = 150, etype = GRAVITY, speed = 7,
      vx = None, direction = None, timer = None, active = None, pull = Some pl\<rparr>"



section \<open>Properties\<close>

declare pickX.simps [simp del] spawnLoop.simps [simp del]

lemmas consts_defs =
  CANVAS_WIDTH_def CANVAS_HEIGHT_def CAR_WIDTH_def CAR_HEIGHT_def
  INITIAL_ENEMY_SPEED_def ENEMY_SPAWN_RATE_def

lemmas entity_defs =
  coin_def powerUp_def movingBarrier_def oilSlick_def laserGrid_def gravityZone_def
  holographicPlatform_def chaserCar_def standardCar_def

lemmas eval_defs =
  entity_defs update_def tick_def updateDifficulty_def decayTimers_def enemyStep_def powerUpStep_def
  spawnStep_def spawnInterval_def spawnCount_def Let_def moveStep_def movePlayer_def
  survivalReward_def startGame_def initialGame_def initialPlayer_def consts_defs
  baseDiff_def spawnLoop.simps pickX.simps spawnOne_def overlaps_def collide_def
  passCheck_def moveEnemy_def barrierLogic_def laserLogic_def platformLogic_def
  chaserLogic_def gameOver_def collect_def

subsection \<open>The player is untouched outside the movement step\<close>

lemma movePlayer_onTrack: "onTrack p \<Longrightarrow> onTrack (movePlayer c env p)"
  by (auto simp: onTrack_def movePlayer_def Let_def consts_defs)


lemma gravityPull_onTrack: "onTrack p \<Longrightarrow> onTrack (gravityPull t es p)"
  by (induction es arbitrary: p) (auto simp: onTrack_def consts_defs Let_def split: option.splits)


lemma push_player: "player (push ent g) = player g"
  by (cases ent) simp_all

lemma spawnLoop_player: "player (spawnLoop d r n i sx k g) = player g"
proof (induction d r n i sx k g rule: spawnLoop.induct)
  case (1 d r n i sx k g)
  show ?case
  proof (cases "i < n")
    case True
    then show ?thesis
      using 1 [OF True refl refl]
      by (subst spawnLoop.simps) (simp add: Let_def push_player)
  next
    case False
    then show ?thesis by (subst spawnLoop.simps) simp
  qed
qed

lemma updatePowerUps_player: "player (snd (updatePowerUps pl ps g)) = player g"
  by (induction ps arbitrary: g) (auto simp: Let_def collect_def)

lemma collide_player: "player (snd (collide c pl e g)) = player g"
  by (auto simp: collide_def passCheck_def gameOver_def Let_def)

lemma updateEnemies_player: "player (snd (updateEnemies c pl es g)) = player g"
  by (induction es arbitrary: g) (auto simp: Let_def collide_player)

lemma moveStep_onTrack: "onTrack (player g) \<Longrightarrow> onTrack (player (moveStep c env g))"
  by (simp add: moveStep_def gravityPull_onTrack movePlayer_onTrack)

lemma update_player:
  "player (update c env g) = player g \<or> player (update c env g) = player (moveStep c env g)"
  by (simp add: update_def updateDifficulty_def decayTimers_def enemyStep_def powerUpStep_def
      spawnStep_def Let_def updateEnemies_player updatePowerUps_player spawnLoop_player
      moveStep_def survivalReward_def)

lemma update_onTrack: "onTrack (player g) \<Longrightarrow> onTrack (player (update c env g))"
  using update_player [of c env g] moveStep_onTrack [of g c env] by auto

lemma reachable_onTrack: "reachable g \<Longrightarrow> onTrack (player g)"
proof (induction rule: reachable.induct)
  case (initial n h l)
  show ?case by (simp add: onTrack_def initialGame_def initialPlayer_def consts_defs)
next
  case (start g now1 now2)
  show ?case by (simp add: onTrack_def startGame_def consts_defs)
next
  case (frame g c env)
  from frame.IH show ?case by (rule update_onTrack)
next
  case (menu g s l t n)
  from menu.IH show ?case by simp
qed

subsection \<open>Spawning\<close>

lemma pickX_result: "\<exists>k'. fst (pickX r sx a k) = r k' * (CANVAS_WIDTH - CAR_WIDTH)"
proof (induction r sx a k rule: pickX.induct)
  case (1 r sx a k)
  show ?case
  proof (cases "list_ex (\<lambda>s. \<bar>s - r k * (CANVAS_WIDTH - CAR_WIDTH)\<bar> < CAR_WIDTH + 20) sx \<and> a + 1 < 10")
    case True
    with 1 show ?thesis by (subst pickX.simps) simp
  next
    case False
    then show ?thesis by (subst pickX.simps) auto
  qed
qed

lemma spawnLoop_new:
  assumes "\<And>i k k'. Q (fst (spawnOne d i (r k' * (CANVAS_WIDTH - CAR_WIDTH)) r k))"
  shows "(\<forall>p \<in> set (powerUps (spawnLoop d r n i sx k g)). p \<in> set (powerUps g) \<or> Q (Collectible p))
       \<and> (\<forall>e \<in> set (enemies (spawnLoop d r n i sx k g)). e \<in> set (enemies g) \<or> Q (Obstacle e))"
  using assms
proof (induction d r n i sx k g rule: spawnLoop.induct)
  case (1 d r n i sx k g)
  note Q = "1.prems"
  show ?case
  proof (cases "i < n")
    case True
    obtain k' where x: "fst (pickX r sx 0 k) = r k' * (CANVAS_WIDTH - CAR_WIDTH)"
      using pickX_result by blast
    define s where "s = fst (spawnOne d i (fst (pickX r sx 0 k)) r (snd (pickX r sx 0 k)))"
    have qs: "Q s" unfolding s_def x by (rule Q)
    have ih: "(\<forall>p \<in> set (powerUps (spawnLoop d r n i sx k g)). p \<in> set (powerUps (push s g)) \<or> Q (Collectible p))
       \<and> (\<forall>e \<in> set (enemies (spawnLoop d r n i sx k g)). e \<in> set (enemies (push s g)) \<or> Q (Obstacle e))"
      using "1.IH" [OF True refl refl Q] True unfolding s_def
      by (subst (1 2) spawnLoop.simps) (simp add: Let_def)
    show ?thesis
      using ih qs by (cases s) auto
  next
    case False
    then show ?thesis by (subst (1 2) spawnLoop.simps) simp
  qed
qed

lemma spawnStep_new:
  assumes Q: "\<And>i k k'. Q (fst (spawnOne (difficulty c) i (rnd env k' * (CANVAS_WIDTH - CAR_WIDTH)) (rnd env) k))"
  shows "(\<forall>p \<in> set (powerUps (spawnStep c env g)). p \<in> set (powerUps g) \<or> Q (Collectible p))
       \<and> (\<forall>e \<in> set (enemies (spawnStep c env g)). e \<in> set (enemies g) \<or> Q (Obstacle e))"
  using spawnLoop_new [of Q "difficulty c" "rnd env", OF Q]
  by (simp add: spawnStep_def)

lemma spawn_live_kinds:
  "fst (spawnOne 2.5 0 100 (draws [0.2]) 0)
     = Collectible \<lparr>posx = 107.5, posy = - 70, width = 25, height = 25, ptype = COIN, pspeed = 17.5\<rparr>"
  "fst (spawnOne 2.5 0 100 (draws [0.45, 0.7, 0.5]) 0)
     = Obstacle \<lparr>posx = 0, posy = - 70, width = 400, height = 150, etype = GRAVITY, speed = 10.5,
         vx = None, direction = None, timer = None, active = None, pull = Some 11.25\<rparr>"
  "fst (spawnOne 2.5 0 100 (draws [0.55]) 0)
     = Obstacle \<lparr>posx = 100, posy = - 70, width = 60, height = 20, etype = PLATFORM, speed = 17.5,
         vx = None, direction = None, timer = Some 0, active = Some True, pull = None\<rparr>"
  "fst (spawnOne 2.5 0 100 (draws [0.65]) 0)
     = Obstacle \<lparr>posx = 100, posy = - 70, width = 40, height = 70, etype = CHASER, speed = 19.25,
         vx = Some 0, direction = None, timer = None, active = None, pull = None\<rparr>"
  "fst (spawnOne 2.5 0 100 (draws [0.9]) 0)
     = Obstacle \<lparr>posx = 100, posy = - 70, width = 40, height = 70, etype = CAR, speed = 17.5,
         vx = None, direction = None, timer = None, active = None, pull = None\<rparr>"
  by (simp_all add: spawnOne_def entity_defs draws_def consts_defs Let_def)

lemma push_set_player: "push s (g\<lparr>player := p\<rparr>) = (push s g)\<lparr>player := p\<rparr>"
  by (cases s) simp_all

lemma spawnLoop_set_player:
  "spawnLoop d r n i sx k (g\<lparr>player := p\<rparr>) = (spawnLoop d r n i sx k g)\<lparr>player := p\<rparr>"
proof (induction d r n i sx k g rule: spawnLoop.induct)
  case (1 d r n i sx k g)
  show ?case
  proof (cases "i < n")
    case True
    then show ?thesis
      using 1 [OF True refl refl]
      by (subst (1 2) spawnLoop.simps) (simp add: Let_def push_set_player)
  next
    case False
    then show ?thesis by (subst (1 2) spawnLoop.simps) simp
  qed
qed

lemma spawnStep_set_player:
  "spawnStep c env (g\<lparr>player := p\<rparr>) = (spawnStep c env g)\<lparr>player := p\<rparr>"
  by (simp add: spawnStep_def spawnLoop_set_player)

lemma spawnLoop_count:
  "length (enemies (spawnLoop d r n i sx k g)) + length (powerUps (spawnLoop d r n i sx k g))
   = length (enemies g) + length (powerUps g) + (n - i)"
proof (induction d r n i sx k g rule: spawnLoop.induct)
  case (1 d r n i sx k g)
  show ?case
  proof (cases "i < n")
    case True
    have p: "length (enemies (push s g)) + length (powerUps (push s g))
             = length (enemies g) + length (powerUps g) + 1" for s
      by (cases s) simp_all
    from True show ?thesis
      using 1 [OF True refl refl]
      by (subst (1 2) spawnLoop.simps) (simp add: Let_def p)
  next
    case False
    then show ?thesis by (subst (1 2) spawnLoop.simps) simp
  qed
qed

subsection \<open>What each step leaves unchanged\<close>

lemma push_frame:
  "gameState (push s g) = gameState g \<and> score (push s g) = score g
   \<and> highScore (push s g) = highScore g \<and> difficulty (push s g) = difficulty g
   \<and> difficultyLevel (push s g) = difficultyLevel g \<and> tireType (push s g) = tireType g
   \<and> activeShield (push s g) = activeShield g \<and> activeMultiplier (push s g) = activeMultiplier g
   \<and> activeBoost (push s g) = activeBoost g \<and> isSliding (push s g) = isSliding g
   \<and> coins (push s g) = coins g \<and> lastSpawnTime (push s g) = lastSpawnTime g
   \<and> lastCoinRewardTime (push s g) = lastCoinRewardTime g"
  by (cases s) simp_all

lemma spawnLoop_frame:
  "gameState (spawnLoop d r n i sx k g) = gameState g
   \<and> score (spawnLoop d r n i sx k g) = score g
   \<and> highScore (spawnLoop d r n i sx k g) = highScore g
   \<and> difficulty (spawnLoop d r n i sx k g) = difficulty g
   \<and> difficultyLevel (spawnLoop d r n i sx k g) = difficultyLevel g
   \<and> tireType (spawnLoop d r n i sx k g) = tireType g
   \<and> activeShield (spawnLoop d r n i sx k g) = activeShield g
   \<and> activeMultiplier (spawnLoop d r n i sx k g) = activeMultiplier g
   \<and> activeBoost (spawnLoop d r n i sx k g) = activeBoost g
   \<and> isSliding (spawnLoop d r n i sx k g) = isSliding g
   \<and> coins (spawnLoop d r n i sx k g) = coins g
   \<and> lastSpawnTime (spawnLoop d r n i sx k g) = lastSpawnTime g
   \<and> lastCoinRewardTime (spawnLoop d r n i sx k g) = lastCoinRewardTime g"
proof (induction d r n i sx k g rule: spawnLoop.induct)
  case (1 d r n i sx k g)
  show ?case
  proof (cases "i < n")
    case True
    then show ?thesis
      using 1 [OF True refl refl]
      by (subst (1 2 3 4 5 6 7 8 9 10 11 12 13) spawnLoop.simps) (simp add: Let_def push_frame)
  next
    case False
    then show ?thesis by (subst (1 2 3 4 5 6 7 8 9 10 11 12 13) spawnLoop.simps) simp
  qed
qed


lemma spawnStep_frame:
  "gameState (spawnStep c env g) = gameState g
   \<and> score (spawnStep c env g) = score g
   \<and> highScore (spawnStep c env g) = highScore g
   \<and> difficulty (spawnStep c env g) = difficulty g
   \<and> difficultyLevel (spawnStep c env g) = difficultyLevel g
   \<and> tireType (spawnStep c env g) = tireType g
   \<and> activeShield (spawnStep c env g) = activeShield g
   \<and> activeMultiplier (spawnStep c env g) = activeMultiplier g
   \<and> activeBoost (spawnStep c env g) = activeBoost g
   \<and> isSliding (spawnStep c env g) = isSliding g
   \<and> coins (spawnStep c env g) = coins g
   \<and> player (spawnStep c env g) = player g
   \<and> lastCoinRewardTime (spawnStep c env g) = lastCoinRewardTime g"
  by (simp add: spawnStep_def spawnLoop_frame spawnLoop_player)


lemma collect_frame:
  "gameState (collect p g) = gameState g \<and> score (collect p g) = score g
   \<and> highScore (collect p g) = highScore g \<and> difficulty (collect p g) = difficulty g
   \<and> difficultyLevel (collect p g) = difficultyLevel g \<and> tireType (collect p g) = tireType g
   \<and> isSliding (collect p g) = isSliding g \<and> player (collect p g) = player g
   \<and> enemies (collect p g) = enemies g \<and> powerUps (collect p g) = powerUps g
   \<and> lastSpawnTime (collect p g) = lastSpawnTime g
   \<and> lastCoinRewardTime (collect p g) = lastCoinRewardTime g"
  by (simp add: collect_def Let_def)

lemma updatePowerUps_frame:
  "gameState (snd (updatePowerUps pl ps g)) = gameState g
   \<and> score (snd (updatePowerUps pl ps g)) = score g
   \<and> highScore (snd (updatePowerUps pl ps g)) = highScore g
   \<and> difficulty (snd (updatePowerUps pl ps g)) = difficulty g
   \<and> difficultyLevel (snd (updatePowerUps pl ps g)) = difficultyLevel g
   \<and> tireType (snd (updatePowerUps pl ps g)) = tireType g
   \<and> isSliding (snd (updatePowerUps pl ps g)) = isSliding g
   \<and> player (snd (updatePowerUps pl ps g)) = player g
   \<and> enemies (snd (updatePowerUps pl ps g)) = enemies g
   \<and> lastSpawnTime (snd (updatePowerUps pl ps g)) = lastSpawnTime g
   \<and> lastCoinRewardTime (snd (updatePowerUps pl ps g)) = lastCoinRewardTime g"
  by (induction ps arbitrary: g) (simp_all add: Let_def collect_frame)

lemma powerUpStep_frame:
  "gameState (powerUpStep g) = gameState g
   \<and> score (powerUpStep g) = score g
   \<and> highScore (powerUpStep g) = highScore g
   \<and> difficulty (powerUpStep g) = difficulty g
   \<and> difficultyLevel (powerUpStep g) = difficultyLevel g
   \<and> tireType (powerUpStep g) = tireType g
   \<and> isSliding (powerUpStep g) = isSliding g
   \<and> player (powerUpStep g) = player g
   \<and> enemies (powerUpStep g) = enemies g
   \<and> lastSpawnTime (powerUpStep g) = lastSpawnTime g
   \<and> lastCoinRewardTime (powerUpStep g) = lastCoinRewardTime g"
  by (simp add: powerUpStep_def Let_def updatePowerUps_frame)

lemma collide_frame:
  "difficulty (snd (collide c pl e g)) = difficulty g
   \<and> difficultyLevel (snd (collide c pl e g)) = difficultyLevel g
   \<and> tireType (snd (collide c pl e g)) = tireType g
   \<and> activeMultiplier (snd (collide c pl e g)) = activeMultiplier g
   \<and> activeBoost (snd (collide c pl e g)) = activeBoost g
   \<and> coins (snd (collide c pl e g)) = coins g
   \<and> player (snd (collide c pl e g)) = player g
   \<and> powerUps (snd (collide c pl e g)) = powerUps g
   \<and> lastSpawnTime (snd (collide c pl e g)) = lastSpawnTime g
   \<and> lastCoinRewardTime (snd (collide c pl e g)) = lastCoinRewardTime g"
  by (simp add: collide_def passCheck_def gameOver_def Let_def)

lemma updateEnemies_frame:
  "difficulty (snd (updateEnemies c pl es g)) = difficulty g
   \<and> difficultyLevel (snd (updateEnemies c pl es g)) = difficultyLevel g
   \<and> tireType (snd (updateEnemies c pl es g)) = tireType g
   \<and> activeMultiplier (snd (updateEnemies c pl es g)) = activeMultiplier g
   \<and> activeBoost (snd (updateEnemies c pl es g)) = activeBoost g
   \<and> coins (snd (updateEnemies c pl es g)) = coins g
   \<and> player (snd (updateEnemies c pl es g)) = player g
   \<and> powerUps (snd (updateEnemies c pl es g)) = powerUps g
   \<and> lastSpawnTime (snd (updateEnemies c pl es g)) = lastSpawnTime g
   \<and> lastCoinRewardTime (snd (updateEnemies c pl es g)) = lastCoinRewardTime g"
  by (induction es arbitrary: g) (simp_all add: Let_def collide_frame)

lemma enemyStep_frame:
  "difficulty (enemyStep c g) = difficulty g
   \<and> difficultyLevel (enemyStep c g) = difficultyLevel g
   \<and> tireType (enemyStep c g) = tireType g
   \<and> activeMultiplier (enemyStep c g) = activeMultiplier g
   \<and> activeBoost (enemyStep c g) = activeBoost g
   \<and> coins (enemyStep c g) = coins g
   \<and> player (enemyStep c g) = player g
   \<and> powerUps (enemyStep c g) = powerUps g
   \<and> lastSpawnTime (enemyStep c g) = lastSpawnTime g
   \<and> lastCoinRewardTime (enemyStep c g) = lastCoinRewardTime g"
  by (simp add: enemyStep_def Let_def updateEnemies_frame)

lemma decayTimers_frame:
  "gameState (decayTimers c g) = gameState g \<and> score (decayTimers c g) = score g
   \<and> highScore (decayTimers c g) = highScore g \<and> difficulty (decayTimers c g) = difficulty g
   \<and> difficultyLevel (decayTimers c g) = difficultyLevel g
   \<and> tireType (decayTimers c g) = tireType g \<and> coins (decayTimers c g) = coins g
   \<and> player (decayTimers c g) = player g \<and> enemies (decayTimers c g) = enemies g
   \<and> powerUps (decayTimers c g) = powerUps g
   \<and> lastSpawnTime (decayTimers c g) = lastSpawnTime g
   \<and> lastCoinRewardTime (decayTimers c g) = lastCoinRewardTime g"
  by (simp add: decayTimers_def Let_def)

subsection \<open>The two filters\<close>

lemma barrierLogic_etype: "etype (barrierLogic e) = etype e"
  by (simp add: barrierLogic_def Let_def split: option.splits)

lemma laserLogic_etype: "etype (laserLogic e) = etype e"
  by (simp add: laserLogic_def split: option.splits)

lemma platformLogic_etype: "etype (platformLogic e) = etype e"
  by (simp add: platformLogic_def split: option.splits)

lemma chaserLogic_etype: "etype (chaserLogic c pl e) = etype e"
  by (simp add: chaserLogic_def Let_def)

lemma moveEnemy_etype: "etype (moveEnemy c pl e) = etype e"
  by (simp add: moveEnemy_def chaserLogic_etype platformLogic_etype laserLogic_etype
      barrierLogic_etype)













lemma survivalReward_frame:
  "gameState (survivalReward t g) = gameState g \<and> score (survivalReward t g) = score g
   \<and> difficulty (survivalReward t g) = difficulty g
   \<and> difficultyLevel (survivalReward t g) = difficultyLevel g
   \<and> player (survivalReward t g) = player g \<and> enemies (survivalReward t g) = enemies g
   \<and> powerUps (survivalReward t g) = powerUps g
   \<and> lastSpawnTime (survivalReward t g) = lastSpawnTime g"
  by (simp add: survivalReward_def)

lemma moveStep_frame:
  "gameState (moveStep c env g) = gameState g \<and> score (moveStep c env g) = score g
   \<and> difficulty (moveStep c env g) = difficulty g
   \<and> difficultyLevel (moveStep c env g) = difficultyLevel g
   \<and> coins (moveStep c env g) = coins g \<and> enemies (moveStep c env g) = enemies g
   \<and> powerUps (moveStep c env g) = powerUps g
   \<and> lastSpawnTime (moveStep c env g) = lastSpawnTime g
   \<and> lastCoinRewardTime (moveStep c env g) = lastCoinRewardTime g"
  by (simp add: moveStep_def)

lemma moveStep_survivalReward:
  "player (moveStep c env (survivalReward t g)) = player (moveStep c env g)"
  by (simp add: moveStep_def survivalReward_frame)





lemma reachable_newRun: "reachable newRun"
proof -
  have "initialGame = initialGame\<lparr>coins := 0, highScore := 0, difficultyLevel := NORMAL\<rparr>"
    by (simp add: initialGame_def)
  then have "reachable initialGame"
    using reachable.initial [where n = 0 and h = 0 and l = NORMAL] by simp
  then show ?thesis unfolding newRun_def by (rule reachable.start)
qed

subsection \<open>The on/off timers\<close>









subsection \<open>Score and difficulty\<close>







subsection \<open>Coins\<close>

lemma push_set_reward:
  "push s (g\<lparr>coins := a, lastCoinRewardTime := b\<rparr>)
     = (push s g)\<lparr>coins := a, lastCoinRewardTime := b\<rparr>"
  by (cases s) simp_all

lemma spawnLoop_set_reward:
  "spawnLoop d r n i sx k (g\<lparr>coins := a, lastCoinRewardTime := b\<rparr>)
     = (spawnLoop d r n i sx k g)\<lparr>coins := a, lastCoinRewardTime := b\<rparr>"
proof (induction d r n i sx k g rule: spawnLoop.induct)
  case (1 d r n i sx k g)
  show ?case
  proof (cases "i < n")
    case True
    then show ?thesis
      using 1 [OF True refl refl]
      by (subst (1 2) spawnLoop.simps) (simp add: Let_def push_set_reward)
  next
    case False
    then show ?thesis by (subst (1 2) spawnLoop.simps) simp
  qed
qed

lemma spawned_after_reward:
  "powerUps (spawnStep c env (moveStep c env (survivalReward t g)))
     = powerUps (spawnStep c env (moveStep c env g))"
  by (simp add: survivalReward_def moveStep_def spawnStep_def spawnLoop_set_reward
      spawnLoop_set_player)

lemma updatePowerUps_coins:
  "coins (snd (updatePowerUps pl ps g))
     = coins g + int (length (filter
         (\<lambda>p. ptype p = COIN \<and> overlaps pl (p\<lparr>posy := posy p + pspeed p\<rparr>)) ps))"
  by (induction ps arbitrary: g) (auto simp: Let_def collect_def)

subsection \<open>The states the program gets into\<close>


lemma spawnStep_plain: "plain g \<Longrightarrow> plain (spawnStep c env g)"
proof -
  assume p: "plain g"
  let ?Q = "\<lambda>s. case s of Collectible p \<Rightarrow> ptype p = COIN
                  | Obstacle e \<Rightarrow> etype e = GRAVITY \<or> etype e = PLATFORM
                                \<or> etype e = CHASER \<or> etype e = CAR"
  have "?Q (fst (spawnOne d i x r k))" for d i x r k
    by (simp add: spawnOne_def entity_defs Let_def)
  from spawnStep_new [of ?Q, OF this, of c env g] p show ?thesis
    by (auto simp: plain_def list_all_iff spawnStep_frame)
qed

lemma updatePowerUps_plain:
  "list_all (\<lambda>p. ptype p = COIN) ps \<Longrightarrow>
     activeShield (snd (updatePowerUps pl ps g)) = activeShield g
     \<and> activeMultiplier (snd (updatePowerUps pl ps g)) = activeMultiplier g
     \<and> activeBoost (snd (updatePowerUps pl ps g)) = activeBoost g
     \<and> list_all (\<lambda>p. ptype p = COIN) (fst (updatePowerUps pl ps g))"
  by (induction ps arbitrary: g) (auto simp: Let_def collect_def)

lemma powerUpStep_plain: "plain g \<Longrightarrow> plain (powerUpStep g)"
  using updatePowerUps_plain [of "powerUps g" "player g" g]
  by (simp add: plain_def powerUpStep_def Let_def updatePowerUps_frame)

lemma collide_plain:
  assumes "\<not> activeShield c > 0" and "etype e \<noteq> OIL"
  shows "activeShield (snd (collide c pl e g)) = activeShield g
       \<and> isSliding (snd (collide c pl e g)) = isSliding g"
  using assms by (simp add: collide_def passCheck_def gameOver_def Let_def)

lemma updateEnemies_plain:
  assumes "\<not> activeShield c > 0"
  shows "list_all (\<lambda>e. etype e = GRAVITY \<or> etype e = PLATFORM \<or> etype e = CHASER \<or> etype e = CAR) es
     \<Longrightarrow> activeShield (snd (updateEnemies c pl es g)) = activeShield g
       \<and> isSliding (snd (updateEnemies c pl es g)) = isSliding g
       \<and> list_all (\<lambda>e. etype e = GRAVITY \<or> etype e = PLATFORM \<or> etype e = CHASER \<or> etype e = CAR)
            (fst (updateEnemies c pl es g))"
proof (induction es arbitrary: g)
  case Nil
  show ?case by simp
next
  case (Cons e es)
  from Cons.prems have k: "etype (moveEnemy c pl e) \<noteq> OIL"
    and k': "etype (moveEnemy c pl e) = GRAVITY \<or> etype (moveEnemy c pl e) = PLATFORM
             \<or> etype (moveEnemy c pl e) = CHASER \<or> etype (moveEnemy c pl e) = CAR"
    and rest: "list_all (\<lambda>e. etype e = GRAVITY \<or> etype e = PLATFORM \<or> etype e = CHASER \<or> etype e = CAR) es"
    by (auto simp: moveEnemy_etype)
  from collide_plain [OF assms k, of pl g] Cons.IH [OF rest, of "snd (collide c pl (moveEnemy c pl e) g)"] k'
  show ?case by (simp add: Let_def)
qed

lemma enemyStep_plain: "\<not> activeShield c > 0 \<Longrightarrow> plain g \<Longrightarrow> plain (enemyStep c g)"
  using updateEnemies_plain [of c "enemies g" "player g" g]
  by (simp add: plain_def enemyStep_def Let_def updateEnemies_frame)

lemma decayTimers_plain: "plain c \<Longrightarrow> decayTimers c g = g"
  by (simp add: plain_def decayTimers_def)

lemma update_plain:
  assumes "plain c" and "plain g"
  shows "plain (update c env g)"
proof -
  have "plain (survivalReward (time env) g)"
    using assms(2) by (simp add: plain_def survivalReward_def)
  then have "plain (moveStep c env (survivalReward (time env) g))"
    by (simp add: plain_def moveStep_def)
  then have "plain (spawnStep c env (moveStep c env (survivalReward (time env) g)))"
    by (rule spawnStep_plain)
  then have "plain (powerUpStep (spawnStep c env (moveStep c env (survivalReward (time env) g))))"
    by (rule powerUpStep_plain)
  moreover from assms(1) have "\<not> activeShield c > 0" by (simp add: plain_def)
  ultimately have "plain (enemyStep c (powerUpStep
      (spawnStep c env (moveStep c env (survivalReward (time env) g)))))"
    by (rule enemyStep_plain [rotated])
  then have "plain (updateDifficulty c (decayTimers c (enemyStep c (powerUpStep
      (spawnStep c env (moveStep c env (survivalReward (time env) g)))))))"
    using assms(1) by (simp add: decayTimers_plain updateDifficulty_def plain_def)
  with assms(2) show ?thesis by (simp add: update_def)
qed

lemma played_plain: "played g \<Longrightarrow> plain g"
proof (induction rule: played.induct)
  case (loaded n h l)
  show ?case by (simp add: plain_def initialGame_def)
next
  case (begun g c now1 now2)
  show ?case by (simp add: plain_def startGame_def)
next
  case (shown g c env)
  from shown.IH(2) shown.IH(1) show ?case by (rule update_plain)
next
  case (chosen g s l t n)
  from chosen.IH show ?case by (simp add: plain_def)
qed

text \<open>
  In every frame the program runs, the timers that the frame has captured are those
  of the state, also of the state on which the two filters run: all are 0.
\<close>

lemma played_timers_agree:
  assumes "played c" and "played g"
  shows "activeShield c = activeShield g \<and> activeMultiplier c = activeMultiplier g
       \<and> activeBoost c = activeBoost g \<and> isSliding c = isSliding g"
  using played_plain [OF assms(1)] played_plain [OF assms(2)] by (simp add: plain_def)





subsection \<open>A run with cars coming down\<close>


















subsection \<open>How far an obstacle has come down\<close>











subsection \<open>Claims\<close>

text \<open>
  C4. In every reachable state, whatever the captured render, the frame time, the
  steer intents, the slide timer and the obstacles on the track (so any number of
  gravity zones with any pull) are, the player's x lies in
  \<open>[0, CANVAS_WIDTH - CAR_WIDTH]\<close> after the movement step, that is, after the
  player's own move followed by the pull of every gravity zone; and so it does at
  the end of the frame.
\<close>

theorem player_x_on_track:
  assumes "reachable g"
  shows "0 \<le> posx (player (moveStep c env (g\<lparr>enemies := es\<rparr>)))
       \<and> posx (player (moveStep c env (g\<lparr>enemies := es\<rparr>))) \<le> CANVAS_WIDTH - CAR_WIDTH
       \<and> 0 \<le> posx (player (update c env g))
       \<and> posx (player (update c env g)) \<le> CANVAS_WIDTH - CAR_WIDTH"
proof -
  from assms have t: "onTrack (player g)" by (rule reachable_onTrack)
  then have "onTrack (player (g\<lparr>enemies := es\<rparr>))" by simp
  then have "onTrack (player (moveStep c env (g\<lparr>enemies := es\<rparr>)))"
    by (rule moveStep_onTrack)
  moreover from t have "onTrack (player (update c env g))" by (rule update_onTrack)
  ultimately show ?thesis by (simp add: onTrack_def)
qed

theorem player_x_on_track_witness:
  "reachable newRun
   \<and> posx (player (moveStep newRun (frameAt 0 [])
              (newRun\<lparr>enemies := [gravityAhead 1000000]\<rparr>))) = 360
   \<and> 0 \<le> posx (player (moveStep newRun (frameAt 0 [])
              (newRun\<lparr>enemies := [gravityAhead 1000000]\<rparr>)))
   \<and> posx (player (moveStep newRun (frameAt 0 [])
              (newRun\<lparr>enemies := [gravityAhead 1000000]\<rparr>))) \<le> CANVAS_WIDTH - CAR_WIDTH"
proof -
  have e: "posx (player (moveStep newRun (frameAt 0 [])
              (newRun\<lparr>enemies := [gravityAhead 1000000]\<rparr>))) = 360"
    by (simp add: eval_defs draws_def frameAt_def newRun_def gravityAhead_def)
  show ?thesis
    using reachable_newRun
      player_x_on_track [OF reachable_newRun, where c = newRun and env = "frameAt 0 []"
        and es = "[gravityAhead 1000000]"]
    by (simp add: e)
qed

text \<open>
  C1. Whatever the difficulty, the slot and the draws are, the spawn step adds only
  coins to the collectibles and only gravity zones, platforms, chasers and standard
  cars to the obstacles: the draw \<open>rand < 0.4\<close> is tested first and makes a coin, so
  the branches for the shield, boost and multiplier power-ups (\<open>rand < 0.25\<close>), the
  moving barrier (\<open>rand < 0.35\<close>), the oil slick (\<open>rand < 0.3\<close>) and the laser grid
  (\<open>rand < 0.4\<close>) are never taken.
\<close>

theorem spawn_never_creates:
  "(\<forall>p \<in> set (powerUps (spawnStep c env g)). p \<in> set (powerUps g) \<or> ptype p = COIN)
   \<and> (\<forall>e \<in> set (enemies (spawnStep c env g)).
         e \<in> set (enemies g) \<or> etype e \<in> {GRAVITY, PLATFORM, CHASER, CAR})"
proof -
  let ?Q = "\<lambda>s. case s of Collectible p \<Rightarrow> ptype p = COIN
                  | Obstacle e \<Rightarrow> etype e \<in> {GRAVITY, PLATFORM, CHASER, CAR}"
  have "?Q (fst (spawnOne d i x r k))" for d i x r k
    by (simp add: spawnOne_def entity_defs Let_def)
  from spawnStep_new [of ?Q, OF this] show ?thesis by simp
qed

theorem spawn_never_creates_witness:
  "powerUps (spawnStep normalRun (frameAt 1000 [0.3, 0.5, 0.2]) normalRun)
     = [\<lparr>posx = 187.5, posy = - 70, width = 25, height = 25, ptype = COIN, pspeed = 17.5\<rparr>]
   \<and> last (powerUps (spawnStep normalRun (frameAt 1000 [0.3, 0.5, 0.2]) normalRun))
       \<in> set (powerUps (spawnStep normalRun (frameAt 1000 [0.3, 0.5, 0.2]) normalRun))
   \<and> last (powerUps (spawnStep normalRun (frameAt 1000 [0.3, 0.5, 0.2]) normalRun))
       \<notin> set (powerUps normalRun)
   \<and> ptype (last (powerUps (spawnStep normalRun (frameAt 1000 [0.3, 0.5, 0.2]) normalRun))) = COIN"
proof -
  have e: "powerUps (spawnStep normalRun (frameAt 1000 [0.3, 0.5, 0.2]) normalRun)
     = [\<lparr>posx = 187.5, posy = - 70, width = 25, height = 25, ptype = COIN, pspeed = 17.5\<rparr>]"
    by (simp add: eval_defs draws_def frameAt_def normalRun_def newRun_def)
  have n: "powerUps normalRun = []"
    by (simp add: eval_defs draws_def frameAt_def normalRun_def newRun_def)
  show ?thesis
    using spawn_never_creates [of normalRun "frameAt 1000 [0.3, 0.5, 0.2]" normalRun]
    unfolding e n by simp
qed

text \<open>
  C8 as written fails: on NORMAL at difficulty 1 the interval is 1200; at time 1200, with the last spawn at
  0, nothing is spawned and the clock is not reset.
\<close>

theorem spawn_policy_counterexample:
  "time (frameAt 1200 []) - lastSpawnTime newRun \<ge> spawnInterval newRun
   \<and> spawnStep newRun (frameAt 1200 []) newRun = newRun
   \<and> enemies (tick (frameAt 1200 []) newRun) = []
   \<and> powerUps (tick (frameAt 1200 []) newRun) = []
   \<and> lastSpawnTime (tick (frameAt 1200 []) newRun) = 0"
  by (simp add: eval_defs draws_def frameAt_def newRun_def)

text \<open>
  C8, as the code has it. Spawning happens on the frames where the time since the
  last spawn is strictly greater than the spawn interval, which is
  \<open>ENEMY_SPAWN_RATE / difficulty\<close>, halved while boost is active; then exactly
  \<open>spawnCount\<close> entities are added (1, or 2 when the difficulty exceeds 1.5 and the
  draw exceeds 0.5) and the spawn clock is set to the frame time. On every other
  frame the spawn step changes nothing. At equality nothing spawns, which is where
  the claim as written fails.
\<close>

theorem spawn_policy:
  "(difficulty c = 0 \<or> time env - lastSpawnTime g \<le> spawnInterval c \<longrightarrow> spawnStep c env g = g)
   \<and> (difficulty c \<noteq> 0 \<and> time env - lastSpawnTime g > spawnInterval c \<longrightarrow>
        length (enemies (spawnStep c env g)) + length (powerUps (spawnStep c env g))
          = length (enemies g) + length (powerUps g) + spawnCount c env
        \<and> lastSpawnTime (spawnStep c env g) = time env)
   \<and> (spawnCount c env = 1 \<or> spawnCount c env = 2)
   \<and> (spawnCount c env = 2 \<longleftrightarrow> difficulty c > 1.5 \<and> rnd env 0 > 0.5)
   \<and> spawnInterval c
        = (if activeBoost c > 0 then ENEMY_SPAWN_RATE / difficulty c / 2
           else ENEMY_SPAWN_RATE / difficulty c)"
  by (simp add: spawnStep_def spawnLoop_count spawnCount_def spawnInterval_def)

theorem spawn_policy_witness:
  "difficulty normalRun \<noteq> 0
   \<and> time (frameAt 1000 [0.7, 0.5, 0.9]) - lastSpawnTime normalRun > spawnInterval normalRun
   \<and> spawnCount normalRun (frameAt 1000 [0.7, 0.5, 0.9]) = 2
   \<and> length (enemies (spawnStep normalRun (frameAt 1000 [0.7, 0.5, 0.9]) normalRun))
       + length (powerUps (spawnStep normalRun (frameAt 1000 [0.7, 0.5, 0.9]) normalRun)) = 2
   \<and> lastSpawnTime (spawnStep normalRun (frameAt 1000 [0.7, 0.5, 0.9]) normalRun) = 1000
   \<and> time (frameAt 400 []) - lastSpawnTime normalRun \<le> spawnInterval normalRun
   \<and> spawnStep normalRun (frameAt 400 []) normalRun = normalRun"
proof -
  have h: "difficulty normalRun \<noteq> 0
      \<and> time (frameAt 1000 [0.7, 0.5, 0.9]) - lastSpawnTime normalRun > spawnInterval normalRun"
    by (simp add: eval_defs draws_def frameAt_def normalRun_def newRun_def)
  have h2: "time (frameAt 400 []) - lastSpawnTime normalRun \<le> spawnInterval normalRun"
    by (simp add: eval_defs draws_def frameAt_def normalRun_def newRun_def)
  have c: "spawnCount normalRun (frameAt 1000 [0.7, 0.5, 0.9]) = 2"
    by (simp add: eval_defs draws_def frameAt_def normalRun_def newRun_def)
  have l: "length (enemies normalRun) + length (powerUps normalRun) = 0"
    by (simp add: eval_defs draws_def frameAt_def normalRun_def newRun_def)
  show ?thesis
    using h h2 c l spawn_policy [of normalRun "frameAt 1000 [0.7, 0.5, 0.9]" normalRun]
      spawn_policy [of normalRun "frameAt 400 []" normalRun]
    by (simp add: frameAt_def)
qed

text \<open>
  C2 as written fails: in a new run without shield, a frame with a platform whose
  \<open>active\<close> flag is true over the player ends the run, and with the flag false the
  run goes on and the platform stays.
\<close>

theorem platform_collision_counterexample:
  "gameState (tick (frameAt 16 []) (newRun\<lparr>enemies := [platformAhead True]\<rparr>)) = GAMEOVER
   \<and> gameState (tick (frameAt 16 []) (newRun\<lparr>enemies := [platformAhead False]\<rparr>)) = PLAYING
   \<and> enemies (tick (frameAt 16 []) (newRun\<lparr>enemies := [platformAhead False]\<rparr>))
       = [(platformAhead False)\<lparr>posy := 487, timer := Some 1\<rparr>]
   \<and> overlaps initialPlayer ((platformAhead True)\<lparr>posy := 487, timer := Some 1\<rparr>)
   \<and> overlaps initialPlayer ((platformAhead False)\<lparr>posy := 487, timer := Some 1\<rparr>)"
  by (simp add: eval_defs draws_def frameAt_def newRun_def platformAhead_def)

text \<open>
  C2, as the code has it. A platform that overlaps the player is resolved exactly as a
  laser grid is: while its \<open>active\<close> flag is not true the obstacle stays and the state
  is unchanged; while the flag is true the collision is fatal, that is, with a
  positive shield timer the shield is reset and the obstacle removed, and otherwise
  the state becomes GAMEOVER.
\<close>

theorem platform_collision:
  assumes "overlaps pl e" and "etype e = PLATFORM \<or> etype e = LASER"
  shows "(active e \<noteq> Some True \<longrightarrow> collide c pl e g = (True, g))
       \<and> (active e = Some True \<and> activeShield c > 0 \<longrightarrow>
            collide c pl e g = (False, g\<lparr>activeShield := 0\<rparr>))
       \<and> (active e = Some True \<and> \<not> activeShield c > 0 \<longrightarrow>
            gameState (snd (collide c pl e g)) = GAMEOVER)"
  using assms by (auto simp: collide_def passCheck_def gameOver_def Let_def)

theorem platform_collision_witness:
  "overlaps initialPlayer (moveEnemy newRun initialPlayer (platformAhead False))
   \<and> etype (moveEnemy newRun initialPlayer (platformAhead False)) = PLATFORM
   \<and> active (moveEnemy newRun initialPlayer (platformAhead False)) \<noteq> Some True
   \<and> collide newRun initialPlayer (moveEnemy newRun initialPlayer (platformAhead False)) newRun
       = (True, newRun)
   \<and> overlaps initialPlayer (moveEnemy newRun initialPlayer (platformAhead True))
   \<and> active (moveEnemy newRun initialPlayer (platformAhead True)) = Some True
   \<and> \<not> activeShield newRun > 0
   \<and> gameState (snd (collide newRun initialPlayer
          (moveEnemy newRun initialPlayer (platformAhead True)) newRun)) = GAMEOVER"
proof -
  have o: "overlaps initialPlayer (moveEnemy newRun initialPlayer (platformAhead a))" for a
    by (simp add: eval_defs newRun_def platformAhead_def)
  have t: "etype (moveEnemy newRun initialPlayer (platformAhead a)) = PLATFORM" for a
    by (simp add: eval_defs newRun_def platformAhead_def)
  have a: "active (moveEnemy newRun initialPlayer (platformAhead a)) = Some a" for a
    by (simp add: eval_defs newRun_def platformAhead_def)
  have s: "\<not> activeShield newRun > 0" by (simp add: eval_defs newRun_def platformAhead_def)
  show ?thesis
    using platform_collision [OF o [of False] disjI1 [OF t [of False]], of newRun newRun]
      platform_collision [OF o [of True] disjI1 [OF t [of True]], of newRun newRun] o t a s
    by simp
qed

text \<open>
  C10 as written fails: in a run started at time 0, the frame at time 5000, when 5000
  ms have elapsed, gives no coin and leaves the reward clock at 0.
\<close>

theorem survival_reward_counterexample:
  "time (frameAt 5000 []) - lastCoinRewardTime newRun \<ge> 5000
   \<and> gameState newRun = PLAYING
   \<and> coins newRun = 0
   \<and> coins (tick (frameAt 5000 []) newRun) = 0
   \<and> lastCoinRewardTime (tick (frameAt 5000 []) newRun) = 0"
  by (simp add: eval_defs draws_def frameAt_def newRun_def)

text \<open>
  C10, as the code has it. A frame in state PLAYING with a canvas adds one coin
  exactly when strictly more than 5000 ms have elapsed since the last survival
  reward, and then sets the reward clock to the frame time; apart from that the coin
  total grows only by one for each coin collectible picked up in the frame. So the
  reward does not depend on pickups, and coins grow even if none is ever collected.
\<close>

theorem survival_reward:
  assumes "gameState c = PLAYING" and "hasCtx env"
  shows "coins (update c env g)
           = coins g + (if time env - lastCoinRewardTime g > 5000 then 1 else 0)
             + int (length (filter
                 (\<lambda>p. ptype p = COIN
                      \<and> overlaps (player (moveStep c env g)) (p\<lparr>posy := posy p + pspeed p\<rparr>))
                 (powerUps (spawnStep c env (moveStep c env g)))))
       \<and> lastCoinRewardTime (update c env g)
           = (if time env - lastCoinRewardTime g > 5000 then time env else lastCoinRewardTime g)"
proof -
  define g3 where "g3 = spawnStep c env (moveStep c env (survivalReward (time env) g))"
  have pl: "player g3 = player (moveStep c env g)"
    unfolding g3_def by (simp add: spawnStep_frame moveStep_survivalReward)
  have ps: "powerUps g3 = powerUps (spawnStep c env (moveStep c env g))"
    unfolding g3_def by (rule spawned_after_reward)
  have c3: "coins g3 = coins g + (if time env - lastCoinRewardTime g > 5000 then 1 else 0)"
    unfolding g3_def by (simp add: spawnStep_frame moveStep_frame survivalReward_def)
  have l3: "lastCoinRewardTime g3
      = (if time env - lastCoinRewardTime g > 5000 then time env else lastCoinRewardTime g)"
    unfolding g3_def by (simp add: spawnStep_frame moveStep_frame survivalReward_def)
  have upd: "update c env g = updateDifficulty c (decayTimers c (enemyStep c (powerUpStep g3)))"
    using assms by (simp add: update_def g3_def)
  have "coins (update c env g) = coins (powerUpStep g3)"
    by (simp add: upd updateDifficulty_def decayTimers_frame enemyStep_frame)
  also have "\<dots> = coins g3 + int (length (filter
         (\<lambda>p. ptype p = COIN \<and> overlaps (player g3) (p\<lparr>posy := posy p + pspeed p\<rparr>))
         (powerUps g3)))"
    by (simp add: powerUpStep_def Let_def updatePowerUps_coins)
  finally have a: "coins (update c env g) = coins g + (if time env - lastCoinRewardTime g > 5000 then 1 else 0)
             + int (length (filter
                 (\<lambda>p. ptype p = COIN
                      \<and> overlaps (player (moveStep c env g)) (p\<lparr>posy := posy p + pspeed p\<rparr>))
                 (powerUps (spawnStep c env (moveStep c env g)))))"
    by (simp only: pl ps c3)
  have "lastCoinRewardTime (update c env g) = lastCoinRewardTime g3"
    by (simp add: upd updateDifficulty_def decayTimers_frame enemyStep_frame powerUpStep_frame)
  with l3 a show ?thesis by simp
qed

theorem survival_reward_witness:
  "gameState newRun = PLAYING \<and> hasCtx (frameAt 5001 [])
   \<and> time (frameAt 5001 []) - lastCoinRewardTime newRun > 5000
   \<and> coins (update newRun (frameAt 5001 []) newRun) = coins newRun + 1
   \<and> lastCoinRewardTime (update newRun (frameAt 5001 []) newRun) = 5001"
proof -
  have h: "gameState newRun = PLAYING" "hasCtx (frameAt 5001 [])"
    by (simp_all add: eval_defs draws_def frameAt_def newRun_def)
  have t: "time (frameAt 5001 []) - lastCoinRewardTime newRun > 5000"
    "time (frameAt 5001 []) = 5001"
    by (simp_all add: eval_defs draws_def frameAt_def newRun_def)
  have n: "filter (\<lambda>p. ptype p = COIN
        \<and> overlaps (player (moveStep newRun (frameAt 5001 []) newRun))
            (p\<lparr>posy := posy p + pspeed p\<rparr>))
      (powerUps (spawnStep newRun (frameAt 5001 []) (moveStep newRun (frameAt 5001 []) newRun)))
      = []"
    by (simp add: eval_defs draws_def frameAt_def newRun_def)
  show ?thesis
    using survival_reward [OF h, of newRun] h t unfolding n by simp
qed








text \<open>
  C6 as written fails: a coin is spawned at \<open>y = - 70\<close> with height 25, and a
  platform at \<open>x = 180\<close> for the player at \<open>x = 0\<close> and at \<open>x = 360\<close> alike.
\<close>

theorem spawn_geometry_counterexample:
  "powerUps (spawnStep newRun (frameAt 1201 [0.5, 0.1]) newRun)
     = [\<lparr>posx = 187.5, posy = - 70, width = 25, height = 25, ptype = COIN, pspeed = 7\<rparr>]
   \<and> posy (last (powerUps (spawnStep newRun (frameAt 1201 [0.5, 0.1]) newRun)))
       \<noteq> - height (last (powerUps (spawnStep newRun (frameAt 1201 [0.5, 0.1]) newRun)))
   \<and> posx (last (enemies (spawnStep normalRun (frameAt 1000 [0.3, 0.5, 0.55])
                (normalRun\<lparr>player := initialPlayer\<lparr>posx := 0\<rparr>\<rparr>)))) = 180
   \<and> posx (last (enemies (spawnStep normalRun (frameAt 1000 [0.3, 0.5, 0.55])
                (normalRun\<lparr>player := initialPlayer\<lparr>posx := 360\<rparr>\<rparr>)))) = 180
   \<and> etype (last (enemies (spawnStep normalRun (frameAt 1000 [0.3, 0.5, 0.55])
                (normalRun\<lparr>player := initialPlayer\<lparr>posx := 360\<rparr>\<rparr>)))) = PLATFORM"
  by (simp add: eval_defs draws_def frameAt_def newRun_def normalRun_def)

text \<open>
  C6, as the code has it. Every record that a branch of the spawn loop builds has
  \<open>y = - CAR_HEIGHT\<close>, whatever its own height, so that \<open>y = - height\<close> holds for the
  standard car and the chaser only, and the speed \<open>INITIAL_ENEMY_SPEED * difficulty\<close>
  times the multiplier of its kind: 0.8 for the barrier, 0.7 for the laser grid, 0.6
  for the gravity zone, 1.1 for the chaser, 1 for the others. The laser grid and the
  gravity zone have \<open>x = 0\<close> and the width of the canvas. The platform and the chaser
  are at the x of their slot, which is a draw times \<open>CANVAS_WIDTH - CAR_WIDTH\<close>. All
  this holds of every entity that the spawn step adds, and what it adds does not
  depend on the player.
\<close>

theorem spawn_geometry:
  "posy (coin d x) = - CAR_HEIGHT \<and> pspeed (coin d x) = INITIAL_ENEMY_SPEED * d
   \<and> posy (powerUp d x ty) = - CAR_HEIGHT \<and> pspeed (powerUp d x ty) = INITIAL_ENEMY_SPEED * d
   \<and> posy (movingBarrier d x u) = - CAR_HEIGHT
   \<and> speed (movingBarrier d x u) = INITIAL_ENEMY_SPEED * d * 0.8
   \<and> posy (oilSlick d x) = - CAR_HEIGHT \<and> speed (oilSlick d x) = INITIAL_ENEMY_SPEED * d
   \<and> posy (laserGrid d) = - CAR_HEIGHT \<and> speed (laserGrid d) = INITIAL_ENEMY_SPEED * d * 0.7
   \<and> posx (laserGrid d) = 0 \<and> width (laserGrid d) = CANVAS_WIDTH
   \<and> posy (gravityZone d u1 u2) = - CAR_HEIGHT
   \<and> speed (gravityZone d u1 u2) = INITIAL_ENEMY_SPEED * d * 0.6
   \<and> posx (gravityZone d u1 u2) = 0 \<and> width (gravityZone d u1 u2) = CANVAS_WIDTH
   \<and> posy (holographicPlatform d x) = - CAR_HEIGHT
   \<and> speed (holographicPlatform d x) = INITIAL_ENEMY_SPEED * d
   \<and> posx (holographicPlatform d x) = x
   \<and> posy (chaserCar d x) = - CAR_HEIGHT
   \<and> speed (chaserCar d x) = INITIAL_ENEMY_SPEED * d * 1.1
   \<and> posx (chaserCar d x) = x \<and> posy (chaserCar d x) = - height (chaserCar d x)
   \<and> posy (standardCar d x) = - CAR_HEIGHT \<and> speed (standardCar d x) = INITIAL_ENEMY_SPEED * d
   \<and> posx (standardCar d x) = x \<and> posy (standardCar d x) = - height (standardCar d x)
   \<and> (\<forall>p \<in> set (powerUps (spawnStep c env g)).
        p \<in> set (powerUps g)
        \<or> posy p = - CAR_HEIGHT \<and> pspeed p = INITIAL_ENEMY_SPEED * difficulty c)
   \<and> (\<forall>e \<in> set (enemies (spawnStep c env g)).
        e \<in> set (enemies g)
        \<or> posy e = - CAR_HEIGHT
          \<and> speed e = INITIAL_ENEMY_SPEED * difficulty c
                * (if etype e = BARRIER then 0.8 else if etype e = LASER then 0.7
                   else if etype e = GRAVITY then 0.6 else if etype e = CHASER then 1.1 else 1)
          \<and> (etype e = LASER \<or> etype e = GRAVITY \<longrightarrow> posx e = 0 \<and> width e = CANVAS_WIDTH)
          \<and> (etype e = PLATFORM \<or> etype e = CHASER \<longrightarrow>
               (\<exists>k. posx e = rnd env k * (CANVAS_WIDTH - CAR_WIDTH)))
          \<and> (etype e = CAR \<or> etype e = CHASER \<longrightarrow> posy e = - height e))
   \<and> enemies (spawnStep c env (g\<lparr>player := pl\<rparr>)) = enemies (spawnStep c env g)
   \<and> powerUps (spawnStep c env (g\<lparr>player := pl\<rparr>)) = powerUps (spawnStep c env g)"
proof -
  let ?Q = "\<lambda>s. case s of
      Collectible p \<Rightarrow> posy p = - CAR_HEIGHT \<and> pspeed p = INITIAL_ENEMY_SPEED * difficulty c
    | Obstacle e \<Rightarrow> posy e = - CAR_HEIGHT
          \<and> speed e = INITIAL_ENEMY_SPEED * difficulty c
                * (if etype e = BARRIER then 0.8 else if etype e = LASER then 0.7
                   else if etype e = GRAVITY then 0.6 else if etype e = CHASER then 1.1 else 1)
          \<and> (etype e = LASER \<or> etype e = GRAVITY \<longrightarrow> posx e = 0 \<and> width e = CANVAS_WIDTH)
          \<and> (etype e = PLATFORM \<or> etype e = CHASER \<longrightarrow>
               (\<exists>k. posx e = rnd env k * (CANVAS_WIDTH - CAR_WIDTH)))
          \<and> (etype e = CAR \<or> etype e = CHASER \<longrightarrow> posy e = - height e)"
  have "?Q (fst (spawnOne (difficulty c) i (rnd env k' * (CANVAS_WIDTH - CAR_WIDTH)) (rnd env) k))"
    for i k k'
    by (auto simp: spawnOne_def entity_defs Let_def)
  from spawnStep_new [of ?Q, OF this]
  have s: "(\<forall>p \<in> set (powerUps (spawnStep c env g)).
        p \<in> set (powerUps g)
        \<or> posy p = - CAR_HEIGHT \<and> pspeed p = INITIAL_ENEMY_SPEED * difficulty c)
   \<and> (\<forall>e \<in> set (enemies (spawnStep c env g)).
        e \<in> set (enemies g)
        \<or> posy e = - CAR_HEIGHT
          \<and> speed e = INITIAL_ENEMY_SPEED * difficulty c
                * (if etype e = BARRIER then 0.8 else if etype e = LASER then 0.7
                   else if etype e = GRAVITY then 0.6 else if etype e = CHASER then 1.1 else 1)
          \<and> (etype e = LASER \<or> etype e = GRAVITY \<longrightarrow> posx e = 0 \<and> width e = CANVAS_WIDTH)
          \<and> (etype e = PLATFORM \<or> etype e = CHASER \<longrightarrow>
               (\<exists>k. posx e = rnd env k * (CANVAS_WIDTH - CAR_WIDTH)))
          \<and> (etype e = CAR \<or> etype e = CHASER \<longrightarrow> posy e = - height e))"
    by simp
  have r: "posy (coin d x) = - CAR_HEIGHT \<and> pspeed (coin d x) = INITIAL_ENEMY_SPEED * d
   \<and> posy (powerUp d x ty) = - CAR_HEIGHT \<and> pspeed (powerUp d x ty) = INITIAL_ENEMY_SPEED * d
   \<and> posy (movingBarrier d x u) = - CAR_HEIGHT
   \<and> speed (movingBarrier d x u) = INITIAL_ENEMY_SPEED * d * 0.8
   \<and> posy (oilSlick d x) = - CAR_HEIGHT \<and> speed (oilSlick d x) = INITIAL_ENEMY_SPEED * d
   \<and> posy (laserGrid d) = - CAR_HEIGHT \<and> speed (laserGrid d) = INITIAL_ENEMY_SPEED * d * 0.7
   \<and> posx (laserGrid d) = 0 \<and> width (laserGrid d) = CANVAS_WIDTH
   \<and> posy (gravityZone d u1 u2) = - CAR_HEIGHT
   \<and> speed (gravityZone d u1 u2) = INITIAL_ENEMY_SPEED * d * 0.6
   \<and> posx (gravityZone d u1 u2) = 0 \<and> width (gravityZone d u1 u2) = CANVAS_WIDTH
   \<and> posy (holographicPlatform d x) = - CAR_HEIGHT
   \<and> speed (holographicPlatform d x) = INITIAL_ENEMY_SPEED * d
   \<and> posx (holographicPlatform d x) = x
   \<and> posy (chaserCar d x) = - CAR_HEIGHT
   \<and> speed (chaserCar d x) = INITIAL_ENEMY_SPEED * d * 1.1
   \<and> posx (chaserCar d x) = x \<and> posy (chaserCar d x) = - height (chaserCar d x)
   \<and> posy (standardCar d x) = - CAR_HEIGHT \<and> speed (standardCar d x) = INITIAL_ENEMY_SPEED * d
   \<and> posx (standardCar d x) = x \<and> posy (standardCar d x) = - height (standardCar d x)"
    by (simp add: entity_defs Let_def)
  have i: "enemies (spawnStep c env (g\<lparr>player := pl\<rparr>)) = enemies (spawnStep c env g)
   \<and> powerUps (spawnStep c env (g\<lparr>player := pl\<rparr>)) = powerUps (spawnStep c env g)"
    by (simp add: spawnStep_set_player)
  from r s i show ?thesis by blast
qed

theorem spawn_geometry_witness:
  "enemies (spawnStep normalRun (frameAt 1000 [0.3, 0.5, 0.65]) normalRun)
     = [\<lparr>posx = 180, posy = - 70, width = 40, height = 70, etype = CHASER, speed = 19.25,
         vx = Some 0, direction = None, timer = None, active = None, pull = None\<rparr>]
   \<and> last (enemies (spawnStep normalRun (frameAt 1000 [0.3, 0.5, 0.65]) normalRun))
       \<notin> set (enemies normalRun)
   \<and> posy (last (enemies (spawnStep normalRun (frameAt 1000 [0.3, 0.5, 0.65]) normalRun)))
       = - CAR_HEIGHT
   \<and> speed (last (enemies (spawnStep normalRun (frameAt 1000 [0.3, 0.5, 0.65]) normalRun)))
       = INITIAL_ENEMY_SPEED * difficulty normalRun * 1.1
   \<and> speed (laserGrid 2.5) = 12.25 \<and> width (laserGrid 2.5) = 400
   \<and> speed (movingBarrier 2.5 100 0.7) = 14"
proof -
  have e: "enemies (spawnStep normalRun (frameAt 1000 [0.3, 0.5, 0.65]) normalRun)
     = [\<lparr>posx = 180, posy = - 70, width = 40, height = 70, etype = CHASER, speed = 19.25,
         vx = Some 0, direction = None, timer = None, active = None, pull = None\<rparr>]"
    by (simp add: eval_defs draws_def frameAt_def normalRun_def newRun_def)
  have n: "enemies normalRun = []"
    by (simp add: eval_defs draws_def frameAt_def normalRun_def newRun_def)
  show ?thesis
    using spawn_geometry [where c = normalRun and env = "frameAt 1000 [0.3, 0.5, 0.65]"
        and g = normalRun and d = "2.5" and x = 100 and u = "0.7"]
    unfolding e n by (simp add: consts_defs)
qed



end
